theory Spec2Isabelle
  imports Complex_Main
begin

section \<open>Python values\<close>

text \<open>
  A Python \<open>str\<close> is a sequence of Unicode code points and \<open>len\<close> counts code points,
  so a string is modelled as the list of its code points. \<open>bytes\<close> is a list of
  octets.
\<close>

type_synonym pystr = "nat list"

type_synonym pybytes = "nat list"

definition str_of :: "string \<Rightarrow> pystr" where
  "str_of s = map of_char s"

text \<open>
  The characters \<open>str.strip()\<close> removes when called without an argument: the ones
  CPython's \<open>Py_UNICODE_ISSPACE\<close> accepts.
\<close>

definition py_isspace :: "nat \<Rightarrow> bool" where
  "py_isspace c \<longleftrightarrow>
     (9 \<le> c \<and> c \<le> 13) \<or> (28 \<le> c \<and> c \<le> 32) \<or> c = 133 \<or> c = 160 \<or> c = 5760 \<or>
     (8192 \<le> c \<and> c \<le> 8202) \<or> c = 8232 \<or> c = 8233 \<or> c = 8239 \<or> c = 8287 \<or>
     c = 12288"

definition py_strip :: "pystr \<Rightarrow> pystr" where
  "py_strip s = rev (dropWhile py_isspace (rev (dropWhile py_isspace s)))"

section \<open>voice\_recognition.py: append\_text\<close>

text \<open>
  \<^verbatim>\<open>
  def append_text(current_text, new_text):
      if not current_text or current_text.strip() == "":
          return new_text
      return f"{current_text} {new_text}"
  \<close>
  \<open>not current_text\<close> holds of the empty string only; the f-string joins the two
  texts with one U+0020.
\<close>

definition append_text :: "pystr \<Rightarrow> pystr \<Rightarrow> pystr" where
  "append_text current_text new_text =
     (if current_text = [] \<or> py_strip current_text = [] then new_text
      else current_text @ str_of '' '' @ new_text)"

section \<open>voice\_recognition.py: configuration\<close>

text \<open>
  The module reads four names from \<open>src.config\<close> and falls back to literals when the
  import raises ImportError:
  \<^verbatim>\<open>
  try:
      from src.config import (VOICE_LANGUAGE, VOICE_ENERGY_THRESHOLD,
                              VOICE_DYNAMIC_THRESHOLD, VOICE_AMBIENT_DURATION)
  except ImportError:
      VOICE_LANGUAGE = "es-ES"
      VOICE_ENERGY_THRESHOLD = 4000
      VOICE_DYNAMIC_THRESHOLD = True
      VOICE_AMBIENT_DURATION = 0.5
  \<close>
  \<open>src/config.py\<close> is outside the inspected sources, so the outcome of the import is a
  parameter: \<open>Some c\<close> when all four names were imported, \<open>None\<close> on ImportError.
\<close>

record voice_config =
  VOICE_LANGUAGE :: pystr
  VOICE_ENERGY_THRESHOLD :: int
  VOICE_DYNAMIC_THRESHOLD :: bool
  VOICE_AMBIENT_DURATION :: real

definition voice_defaults :: voice_config where
  "voice_defaults =
     \<lparr>VOICE_LANGUAGE = str_of ''es-ES'', VOICE_ENERGY_THRESHOLD = 4000,
      VOICE_DYNAMIC_THRESHOLD = True, VOICE_AMBIENT_DURATION = 0.5\<rparr>"

definition voice_settings :: "voice_config option \<Rightarrow> voice_config" where
  "voice_settings imported = (case imported of Some c \<Rightarrow> c | None \<Rightarrow> voice_defaults)"

section \<open>voice\_recognition.py: the outside world of one transcription\<close>

text \<open>
  Everything \<open>transcribe_audio\<close> touches outside itself is a parameter: what writing the
  temporary file does, what the speech library does with the file, what the remote service
  answers, and whether \<open>os.remove\<close> succeeds. An exception (a subclass of \<open>Exception\<close>)
  is carried as its \<open>str(e)\<close>.
\<close>

datatype write_outcome =
    OpenFails pystr
  | WriteFails pybytes pystr
  | Written

record recognizer =
  energy_threshold :: int
  dynamic_energy_threshold :: bool

datatype load_outcome =
    AudioFileFails pystr
  | AdjustFails pystr
  | RecordFails pystr
  | Recorded pybytes

datatype recog_outcome =
    Transcript pystr
  | UnknownValueError
  | RequestError pystr
  | OtherError pystr

record speech_env =
  fs_write :: write_outcome
  sr_load :: "pybytes \<Rightarrow> recognizer \<Rightarrow> real \<Rightarrow> load_outcome"
  sr_recognize :: "pybytes \<Rightarrow> pystr \<Rightarrow> recog_outcome"
  fs_remove :: "pystr option"

text \<open>
  The calls made on the recognition engine and on the temporary file, in order, and the
  file \<open>temp_audio.wav\<close> itself (\<open>None\<close> when it does not exist).
\<close>

datatype sr_event =
    Configured recognizer
  | AdjustForAmbientNoise real
  | RecognizeGoogle pystr
  | CleanupTempFile

record world =
  temp_file :: "pybytes option"
  sr_log :: "sr_event list"

definition emit :: "sr_event \<Rightarrow> world \<Rightarrow> world" where
  "emit e w = w\<lparr>sr_log := sr_log w @ [e]\<rparr>"

type_synonym 'a raising = "pystr + 'a"

type_synonym transcription = "bool \<times> pystr option \<times> pystr option"

section \<open>voice\_recognition.py: cleanup\_temp\_file\<close>

text \<open>
  \<^verbatim>\<open>
  def cleanup_temp_file(filepath):
      try:
          if os.path.exists(filepath):
              os.remove(filepath)
      except Exception:
          pass
  \<close>
\<close>

definition os_remove :: "speech_env \<Rightarrow> world \<Rightarrow> unit raising \<times> world" where
  "os_remove env w =
     (case fs_remove env of
        None \<Rightarrow> (Inr (), w\<lparr>temp_file := None\<rparr>)
      | Some e \<Rightarrow> (Inl e, w))"

definition cleanup_temp_file :: "speech_env \<Rightarrow> world \<Rightarrow> unit raising \<times> world" where
  "cleanup_temp_file env w =
     (let w0 = emit CleanupTempFile w in
      case (if temp_file w0 \<noteq> None then os_remove env w0 else (Inr (), w0)) of
        (Inl e, w1) \<Rightarrow> (Inr (), w1)
      | (Inr u, w1) \<Rightarrow> (Inr u, w1))"

section \<open>voice\_recognition.py: transcribe\_audio\<close>

definition msg_no_entendido :: pystr where
  "msg_no_entendido =
     str_of ''No se pudo entender el audio. Intenta hablar m'' @ [225] @ str_of ''s claro.''"

definition msg_servicio :: pystr where
  "msg_servicio = str_of ''Error del servicio de reconocimiento: ''"

definition msg_procesando :: pystr where
  "msg_procesando = str_of ''Error procesando audio: ''"

text \<open>
  The inner \<open>try\<close>: the call of the service and its three handled outcomes. Any other
  exception, and one that \<open>cleanup_temp_file\<close> would raise, leaves the block.
  \<^verbatim>\<open>
  try:
      texto_transcrito = recognizer.recognize_google(audio_data, language=language)
      cleanup_temp_file(temp_file)
      return True, texto_transcrito, None
  except sr.UnknownValueError:
      cleanup_temp_file(temp_file)
      return False, None, "No se pudo entender el audio. Intenta hablar m\xe1s claro."
  except sr.RequestError as e:
      cleanup_temp_file(temp_file)
      return False, None, f"Error del servicio de reconocimiento: {str(e)}"
  \<close>
\<close>

definition after_cleanup ::
  "speech_env \<Rightarrow> world \<Rightarrow> transcription \<Rightarrow> transcription raising \<times> world" where
  "after_cleanup env w r =
     (case cleanup_temp_file env w of
        (Inl e, w1) \<Rightarrow> (Inl e, w1)
      | (Inr u, w1) \<Rightarrow> (Inr r, w1))"

definition recognize_block ::
  "speech_env \<Rightarrow> pybytes \<Rightarrow> pystr \<Rightarrow> world \<Rightarrow> transcription raising \<times> world" where
  "recognize_block env audio_data language w =
     (let w0 = emit (RecognizeGoogle language) w in
      case sr_recognize env audio_data language of
        Transcript texto_transcrito \<Rightarrow> after_cleanup env w0 (True, Some texto_transcrito, None)
      | UnknownValueError \<Rightarrow> after_cleanup env w0 (False, None, Some msg_no_entendido)
      | RequestError e \<Rightarrow> after_cleanup env w0 (False, None, Some (msg_servicio @ e))
      | OtherError e \<Rightarrow> (Inl e, w0))"

text \<open>
  The outer \<open>try\<close> body: write the clip, configure a recognizer, load the audio with the
  noise calibration, then the inner block.
  \<^verbatim>\<open>
  with open(temp_file, "wb") as f:
      f.write(audio_bytes)
  recognizer = sr.Recognizer()
  recognizer.energy_threshold = VOICE_ENERGY_THRESHOLD
  recognizer.dynamic_energy_threshold = VOICE_DYNAMIC_THRESHOLD
  with sr.AudioFile(temp_file) as source:
      recognizer.adjust_for_ambient_noise(source, duration=VOICE_AMBIENT_DURATION)
      audio_data = recognizer.record(source)
  \<close>
\<close>

definition load_block ::
  "voice_config \<Rightarrow> speech_env \<Rightarrow> pybytes \<Rightarrow> pystr \<Rightarrow> world \<Rightarrow> transcription raising \<times> world" where
  "load_block cfg env content language w =
     (let r = \<lparr>energy_threshold = VOICE_ENERGY_THRESHOLD cfg,
               dynamic_energy_threshold = VOICE_DYNAMIC_THRESHOLD cfg\<rparr>;
          w0 = emit (Configured r) w;
          d = VOICE_AMBIENT_DURATION cfg
      in case sr_load env content r d of
           AudioFileFails e \<Rightarrow> (Inl e, w0)
         | AdjustFails e \<Rightarrow> (Inl e, emit (AdjustForAmbientNoise d) w0)
         | RecordFails e \<Rightarrow> (Inl e, emit (AdjustForAmbientNoise d) w0)
         | Recorded audio_data \<Rightarrow>
             recognize_block env audio_data language (emit (AdjustForAmbientNoise d) w0))"

definition try_block ::
  "voice_config \<Rightarrow> speech_env \<Rightarrow> pybytes \<Rightarrow> pystr \<Rightarrow> world \<Rightarrow> transcription raising \<times> world" where
  "try_block cfg env audio_bytes language w =
     (case fs_write env of
        OpenFails e \<Rightarrow> (Inl e, w)
      | WriteFails partial e \<Rightarrow> (Inl e, w\<lparr>temp_file := Some partial\<rparr>)
      | Written \<Rightarrow> load_block cfg env audio_bytes language (w\<lparr>temp_file := Some audio_bytes\<rparr>))"

text \<open>
  \<^verbatim>\<open>
  def transcribe_audio(audio_bytes, language=None):
      if language is None:
          language = VOICE_LANGUAGE
      temp_file = "temp_audio.wav"
      try:
          ...
      except Exception as e:
          cleanup_temp_file(temp_file)
          return False, None, f"Error procesando audio: {str(e)}"
  \<close>
  The result is \<open>Inl\<close> when the call itself raises, which only the handler's own
  \<open>cleanup_temp_file\<close> could cause.
\<close>

definition transcribe_audio ::
  "voice_config \<Rightarrow> speech_env \<Rightarrow> pybytes \<Rightarrow> pystr option \<Rightarrow> world \<Rightarrow>
     transcription raising \<times> world" where
  "transcribe_audio cfg env audio_bytes language w =
     (let lang = (case language of None \<Rightarrow> VOICE_LANGUAGE cfg | Some l \<Rightarrow> l) in
      case try_block cfg env audio_bytes lang w of
        (Inr r, w1) \<Rightarrow> (Inr r, w1)
      | (Inl e, w1) \<Rightarrow> after_cleanup env w1 (False, None, Some (msg_procesando @ e)))"

subsection \<open>The tagged outcome of the specification\<close>

text \<open>
  The specification names four outcomes. \<open>as_triple\<close> is how the source writes each of
  them, and \<open>expected_outcome\<close> says, in the specification's words, which one a call
  must produce: Success on a transcript, Unrecognized when the service extracts no
  utterance, ServiceError when the service is unreachable or rejects the request,
  ProcessingError for every other failure.
\<close>

datatype TranscriptionResult =
    Success pystr
  | Unrecognized
  | ServiceError pystr
  | ProcessingError pystr

fun as_triple :: "TranscriptionResult \<Rightarrow> transcription" where
  "as_triple (Success t) = (True, Some t, None)"
| "as_triple Unrecognized = (False, None, Some msg_no_entendido)"
| "as_triple (ServiceError d) = (False, None, Some (msg_servicio @ d))"
| "as_triple (ProcessingError d) = (False, None, Some (msg_procesando @ d))"

definition service_outcome :: "recog_outcome \<Rightarrow> TranscriptionResult" where
  "service_outcome r =
     (case r of
        Transcript t \<Rightarrow> Success t
      | UnknownValueError \<Rightarrow> Unrecognized
      | RequestError d \<Rightarrow> ServiceError d
      | OtherError d \<Rightarrow> ProcessingError d)"

definition expected_outcome ::
  "voice_config \<Rightarrow> speech_env \<Rightarrow> pybytes \<Rightarrow> pystr option \<Rightarrow> TranscriptionResult" where
  "expected_outcome cfg env audio_bytes language =
     (case fs_write env of
        OpenFails d \<Rightarrow> ProcessingError d
      | WriteFails partial d \<Rightarrow> ProcessingError d
      | Written \<Rightarrow>
          (case sr_load env audio_bytes
                  \<lparr>energy_threshold = VOICE_ENERGY_THRESHOLD cfg,
                   dynamic_energy_threshold = VOICE_DYNAMIC_THRESHOLD cfg\<rparr>
                  (VOICE_AMBIENT_DURATION cfg) of
             AudioFileFails d \<Rightarrow> ProcessingError d
           | AdjustFails d \<Rightarrow> ProcessingError d
           | RecordFails d \<Rightarrow> ProcessingError d
           | Recorded audio_data \<Rightarrow>
               service_outcome
                 (sr_recognize env audio_data
                    (case language of None \<Rightarrow> VOICE_LANGUAGE cfg | Some l \<Rightarrow> l))))"

subsection \<open>What a call does to the recognition engine\<close>

text \<open>
  The events one call adds to the log, and the reading of "the call applies the
  configured values to the engine": a recognizer with the configured thresholds, a
  calibration of the configured duration and a request in the configured language all
  occur.
\<close>

definition engine_calls ::
  "voice_config \<Rightarrow> speech_env \<Rightarrow> pybytes \<Rightarrow> pystr option \<Rightarrow> world \<Rightarrow> sr_event list" where
  "engine_calls cfg env audio_bytes language w =
     drop (length (sr_log w)) (sr_log (snd (transcribe_audio cfg env audio_bytes language w)))"

definition configured_recognizer :: "voice_config \<Rightarrow> recognizer" where
  "configured_recognizer cfg =
     \<lparr>energy_threshold = VOICE_ENERGY_THRESHOLD cfg,
      dynamic_energy_threshold = VOICE_DYNAMIC_THRESHOLD cfg\<rparr>"

definition applies_settings :: "voice_config \<Rightarrow> sr_event list \<Rightarrow> bool" where
  "applies_settings cfg evs \<longleftrightarrow>
     Configured (configured_recognizer cfg) \<in> set evs \<and>
     AdjustForAmbientNoise (VOICE_AMBIENT_DURATION cfg) \<in> set evs \<and>
     RecognizeGoogle (VOICE_LANGUAGE cfg) \<in> set evs"

fun from_settings :: "voice_config \<Rightarrow> pystr option \<Rightarrow> sr_event \<Rightarrow> bool" where
  "from_settings cfg language (Configured r) \<longleftrightarrow> r = configured_recognizer cfg"
| "from_settings cfg language (AdjustForAmbientNoise d) \<longleftrightarrow> d = VOICE_AMBIENT_DURATION cfg"
| "from_settings cfg language (RecognizeGoogle lang) \<longleftrightarrow>
     lang = (case language of None \<Rightarrow> VOICE_LANGUAGE cfg | Some l \<Rightarrow> l)"
| "from_settings cfg language CleanupTempFile \<longleftrightarrow> True"

subsection \<open>Sample worlds\<close>

definition clip :: pybytes where
  "clip = [82, 73, 70, 70]"

definition fresh_world :: world where
  "fresh_world = \<lparr>temp_file = None, sr_log = []\<rparr>"

definition stale_world :: world where
  "stale_world = \<lparr>temp_file = Some [0], sr_log = []\<rparr>"

definition env_heard :: speech_env where
  "env_heard =
     \<lparr>fs_write = Written,
      sr_load = (\<lambda>content r d. Recorded content),
      sr_recognize = (\<lambda>audio_data lang. Transcript (str_of ''fiebre alta'')),
      fs_remove = None\<rparr>"

definition env_unparsed :: speech_env where
  "env_unparsed = env_heard\<lparr>sr_recognize := (\<lambda>audio_data lang. UnknownValueError)\<rparr>"

definition env_offline :: speech_env where
  "env_offline =
     env_heard\<lparr>sr_recognize := (\<lambda>audio_data lang. RequestError (str_of ''recognition connection failed''))\<rparr>"

definition env_disk_full :: speech_env where
  "env_disk_full = env_heard\<lparr>fs_write := WriteFails [82] (str_of ''No space left on device'')\<rparr>"

definition env_read_only :: speech_env where
  "env_read_only =
     env_heard\<lparr>fs_write := OpenFails (str_of ''Permission denied''),
               fs_remove := Some (str_of ''Permission denied'')\<rparr>"

section \<open>app.py: the model artifacts\<close>

text \<open>
  The classifier is used through \<open>model.predict_proba([text])[0]\<close> only and the label
  decoder through \<open>le.inverse_transform\<close> only, so the first is the function from a text
  to its probability vector and the second the list \<open>classes_\<close>. Probabilities are
  compared with \<open>>\<close> and nothing else; they are modelled as real numbers (no NaN).
  Each artifact file is missing, present but failing to unpickle, or loadable.
  \<^verbatim>\<open>
  def load_models():
      try:
          if not os.path.exists(config.MODEL_SVM_PATH) or not os.path.exists(config.LABEL_ENCODER_PATH):
              return None, None
          with open(config.MODEL_SVM_PATH, 'rb') as f:
              model = pickle.load(f)
          with open(config.LABEL_ENCODER_PATH, 'rb') as f:
              le = pickle.load(f)
          return model, le
      except Exception as e:
          st.error(f"Error tecnico: {e}")
          return None, None
  \<close>
\<close>

type_synonym classifier = "pystr \<Rightarrow> real list"

type_synonym label_encoder = "pystr list"

datatype 'a artifact =
    Missing
  | Unreadable pystr
  | Pickled 'a

definition path_exists :: "'a artifact \<Rightarrow> bool" where
  "path_exists a = (case a of Missing \<Rightarrow> False | Unreadable e \<Rightarrow> True | Pickled x \<Rightarrow> True)"

text \<open>
  The function returns \<open>(None, None)\<close> or the pair of both objects, never one without the
  other: \<open>None\<close> stands for the first, \<open>Some (model, le)\<close> for the second.
\<close>

definition load_models ::
  "classifier artifact \<Rightarrow> label_encoder artifact \<Rightarrow> (classifier \<times> label_encoder) option" where
  "load_models svm_file le_file =
     (if \<not> path_exists svm_file \<or> \<not> path_exists le_file then None
      else case svm_file of
             Missing \<Rightarrow> None
           | Unreadable e \<Rightarrow> None
           | Pickled model \<Rightarrow>
               (case le_file of
                  Missing \<Rightarrow> None
                | Unreadable e \<Rightarrow> None
                | Pickled le \<Rightarrow> Some (model, le)))"

section \<open>app.py: the prediction\<close>

text \<open>
  \<open>np.argmax\<close> scans the vector once and moves to a later index only when its value is
  strictly greater; on an empty vector it raises ValueError.
\<close>

fun argmax_loop :: "real list \<Rightarrow> nat \<Rightarrow> real \<Rightarrow> nat \<Rightarrow> nat" where
  "argmax_loop [] i mp max_ind = max_ind"
| "argmax_loop (x # xs) i mp max_ind =
     (if x > mp then argmax_loop xs (Suc i) x i else argmax_loop xs (Suc i) mp max_ind)"

definition np_argmax :: "real list \<Rightarrow> nat raising" where
  "np_argmax a =
     (case a of
        [] \<Rightarrow> Inl (str_of ''attempt to get argmax of an empty sequence'')
      | x # xs \<Rightarrow> Inr (argmax_loop xs 1 x 0))"

text \<open>
  \<open>LabelEncoder.inverse_transform\<close> raises ValueError when an index is not one of
  \<open>0 .. len(classes_) - 1\<close> and returns \<open>classes_[y]\<close> otherwise.
\<close>

definition inverse_transform :: "label_encoder \<Rightarrow> nat list \<Rightarrow> pystr list raising" where
  "inverse_transform classes y =
     (if list_all (\<lambda>i. i < length classes) y then Inr (map (\<lambda>i. classes ! i) y)
      else Inl (str_of ''y contains previously unseen labels''))"

text \<open>
  \<^verbatim>\<open>
  pred_probs = model.predict_proba([texto_limpio])[0]
  max_idx = np.argmax(pred_probs)
  confidence = pred_probs[max_idx]
  especialidad_pred = le.inverse_transform([max_idx])[0]
  \<close>
\<close>

definition predecir ::
  "classifier \<Rightarrow> label_encoder \<Rightarrow> pystr \<Rightarrow> (real list \<times> nat \<times> real \<times> pystr) raising" where
  "predecir model le texto_limpio =
     (let pred_probs = model texto_limpio in
      case np_argmax pred_probs of
        Inl e \<Rightarrow> Inl e
      | Inr max_idx \<Rightarrow>
          (let confidence = pred_probs ! max_idx in
           case inverse_transform le [max_idx] of
             Inl e \<Rightarrow> Inl e
           | Inr [] \<Rightarrow> Inl (str_of ''index 0 is out of bounds'')
           | Inr (especialidad_pred # rest) \<Rightarrow>
               Inr (pred_probs, max_idx, confidence, especialidad_pred)))"

text \<open>
  The diagnosis card: the three branches on the confidence, named by their captions
  "Nivel de certeza: Alto", "Nivel de certeza: Medio (Revisar)" and
  "Nivel de certeza: Bajo (Requiere valoracion humana)".
  \<^verbatim>\<open>
  if confidence > 0.8:   ... st.caption("Nivel de certeza: Alto")
  elif confidence > 0.5: ... st.caption("Nivel de certeza: Medio (Revisar)")
  else:                  ... st.caption("Nivel de certeza: Bajo (Requiere valoracion humana)")
  \<close>
\<close>

datatype certeza = Alto | Medio | Bajo

definition nivel_de_certeza :: "real \<Rightarrow> certeza" where
  "nivel_de_certeza confidence =
     (if confidence > 0.8 then Alto else if confidence > 0.5 then Medio else Bajo)"

section \<open>app.py: the three most probable specialties\<close>

text \<open>
  \<open>np.argsort\<close> returns indices that sort the vector in ascending order. NumPy documents
  no more than that of its default algorithm, which is not stable: the order in which it
  returns the indices of equal entries is its own. The function is therefore a parameter
  \<open>argsort\<close>, and \<open>is_argsort\<close> is what the library promises of a result: a permutation
  of the indices along which the values ascend.
  \<^verbatim>\<open>
  top3_idx = np.argsort(pred_probs)[-3:][::-1]
  chart_data = pd.DataFrame({
      "Especialidad": le.inverse_transform(top3_idx),
      "Probabilidad": pred_probs[top3_idx]
  })
  \<close>
\<close>

definition is_argsort :: "real list \<Rightarrow> nat list \<Rightarrow> bool" where
  "is_argsort a idx \<longleftrightarrow>
     distinct idx \<and> set idx = {0..<length a} \<and> sorted (map (\<lambda>i. a ! i) idx)"

definition last3_reversed :: "nat list \<Rightarrow> nat list" where
  "last3_reversed idx = rev (drop (length idx - 3) idx)"

definition top3_idx :: "(real list \<Rightarrow> nat list) \<Rightarrow> real list \<Rightarrow> nat list" where
  "top3_idx argsort pred_probs = last3_reversed (argsort pred_probs)"

definition chart_data ::
  "(real list \<Rightarrow> nat list) \<Rightarrow> label_encoder \<Rightarrow> real list \<Rightarrow> (pystr \<times> real) list raising" where
  "chart_data argsort le pred_probs =
     (case inverse_transform le (top3_idx argsort pred_probs) of
        Inl e \<Rightarrow> Inl e
      | Inr especialidad \<Rightarrow>
          Inr (zip especialidad (map (\<lambda>i. pred_probs ! i) (top3_idx argsort pred_probs))))"

text \<open>
  Orders of a list of indices by descending probability: \<open>ranked a tie idx\<close> holds when
  every entry is followed only by entries of smaller probability, or of equal probability
  and related to it by \<open>tie\<close>. The specification asks for ties in original index order.
\<close>

definition ranked :: "real list \<Rightarrow> (nat \<Rightarrow> nat \<Rightarrow> bool) \<Rightarrow> nat list \<Rightarrow> bool" where
  "ranked a tie idx = sorted_wrt (\<lambda>i j. a ! j < a ! i \<or> (a ! i = a ! j \<and> tie i j)) idx"

definition descending_ties_by_index :: "real list \<Rightarrow> nat list \<Rightarrow> bool" where
  "descending_ties_by_index a idx = ranked a (\<lambda>i j. i < j) idx"

definition is_first_argmax :: "real list \<Rightarrow> nat \<Rightarrow> bool" where
  "is_first_argmax a m \<longleftrightarrow>
     m < length a \<and> (\<forall>j < length a. a ! j \<le> a ! m) \<and> (\<forall>j < m. a ! j < a ! m)"

section \<open>app.py: the analysis\<close>

text \<open>
  \<open>limpiar_texto_medico\<close>, \<open>calcular_prioridad\<close> and \<open>calcular_derivacion\<close> live in modules
  outside the inspected sources; they are parameters, and so is \<open>np.argsort\<close>. The triage
  is read through its keys \<open>nivel\<close>, \<open>nombre\<close>, \<open>color\<close>, \<open>tiempo\<close> and the referral through
  \<open>icono\<close>, \<open>tipo\<close>, \<open>accion\<close>, \<open>mensaje\<close>. Every call of a component of the pipeline is
  recorded.
\<close>

record triaje =
  nivel :: int
  nombre :: pystr
  color :: pystr
  tiempo :: pystr

record derivacion =
  icono :: pystr
  tipo :: pystr
  accion :: pystr
  mensaje :: pystr

record modules =
  limpiar_texto_medico :: "pystr \<Rightarrow> pystr"
  calcular_prioridad :: "pystr \<Rightarrow> triaje"
  calcular_derivacion :: "int \<Rightarrow> pystr \<Rightarrow> derivacion"
  np_argsort :: "real list \<Rightarrow> nat list"

datatype call =
    LimpiarTextoMedico pystr
  | PredictProba pystr
  | CalcularPrioridad pystr
  | CalcularDerivacion int pystr

record resultados =
  especialidad :: pystr
  confianza :: real
  certeza_card :: certeza
  triaje_card :: triaje
  derivacion_card :: derivacion
  otras_posibilidades :: "(pystr \<times> real) list"

text \<open>
  What one run of the script ends with: the degraded-mode warning followed by
  \<open>st.stop()\<close>; the rerun after "Limpiar todo"; nothing; the warning "La descripcion es
  demasiado breve para un diagnostico fiable."; the error "Por favor ingresa una
  descripcion para comenzar."; an uncaught exception; the results.
\<close>

datatype screen =
    Degraded
  | Cleared
  | Idle
  | TooBrief
  | NoDescription
  | Raised pystr
  | Results resultados

text \<open>
  The \<open>else\<close> branch of the handler, lines 182 to 258.
\<close>

definition analisis ::
  "modules \<Rightarrow> classifier \<Rightarrow> label_encoder \<Rightarrow> pystr \<Rightarrow> screen \<times> call list" where
  "analisis m model le texto_input =
     (let texto_limpio = limpiar_texto_medico m texto_input;
          calls1 = [LimpiarTextoMedico texto_input, PredictProba texto_limpio]
      in case predecir model le texto_limpio of
           Inl e \<Rightarrow> (Raised e, calls1)
         | Inr (pred_probs, max_idx, confidence, especialidad_pred) \<Rightarrow>
             (let triaje = calcular_prioridad m texto_input;
                  derivacion = calcular_derivacion m (nivel triaje) especialidad_pred;
                  calls2 = calls1 @ [CalcularPrioridad texto_input,
                                     CalcularDerivacion (nivel triaje) especialidad_pred]
              in case chart_data (np_argsort m) le pred_probs of
                   Inl e \<Rightarrow> (Raised e, calls2)
                 | Inr chart \<Rightarrow>
                     (Results \<lparr>especialidad = especialidad_pred, confianza = confidence,
                               certeza_card = nivel_de_certeza confidence, triaje_card = triaje,
                               derivacion_card = derivacion, otras_posibilidades = chart\<rparr>,
                      calls2)))"

text \<open>
  \<^verbatim>\<open>
  if analizar and texto_input:
      if len(texto_input) < 10:
          st.warning("La descripcion es demasiado breve para un diagnostico fiable.")
      else:
          ...
  elif analizar and not texto_input:
      st.error("Por favor ingresa una descripcion para comenzar.")
  \<close>
\<close>

definition analizar_handler ::
  "modules \<Rightarrow> classifier \<Rightarrow> label_encoder \<Rightarrow> bool \<Rightarrow> pystr \<Rightarrow> screen \<times> call list" where
  "analizar_handler m model le analizar texto_input =
     (if analizar \<and> texto_input \<noteq> [] then
        (if length texto_input < 10 then (TooBrief, [])
         else analisis m model le texto_input)
      else if analizar \<and> texto_input = [] then (NoDescription, [])
      else (Idle, []))"

section \<open>app.py: one run of the script\<close>

text \<open>
  The widgets are inputs of the run: the recorded audio, the text area (a function of the
  value it is given as default), and the two buttons. The session keeps
  \<open>texto_completo\<close>, absent before the first run.
\<close>

record ui =
  audio_bytes :: "pybytes option"
  text_area :: "pystr \<Rightarrow> pystr"
  analizar :: bool
  limpiar_todo :: bool

record run =
  shown :: screen
  calls :: "call list"
  texto_completo :: "pystr option"
  disk :: world

text \<open>
  The dictation block. \<open>if audio_bytes:\<close> skips \<open>None\<close> and the empty buffer. The shapes
  of the triple that would make the block raise do not occur (see the invariant of the
  triple below) but are kept as raising.
  \<^verbatim>\<open>
  if audio_bytes:
      success, texto_transcrito, error_msg = transcribe_audio(audio_bytes)
      if success:
          st.session_state.texto_completo = append_text(
              st.session_state.texto_completo, texto_transcrito)
      else:
          if "no se pudo entender" in error_msg.lower(): st.warning(...)
          else: st.error(...)
  \<close>
\<close>

definition dictado ::
  "voice_config \<Rightarrow> speech_env \<Rightarrow> pybytes option \<Rightarrow> pystr \<Rightarrow> world \<Rightarrow> (pystr \<times> world) raising" where
  "dictado cfg env audio current w =
     (case audio of
        None \<Rightarrow> Inr (current, w)
      | Some a \<Rightarrow>
          if a = [] then Inr (current, w)
          else (case transcribe_audio cfg env a None w of
                  (Inl e, w1) \<Rightarrow> Inl e
                | (Inr (success, texto_transcrito, error_msg), w1) \<Rightarrow>
                    if success then
                      (case texto_transcrito of
                         None \<Rightarrow> Inl (str_of ''append_text got None'')
                       | Some t \<Rightarrow> Inr (append_text current t, w1))
                    else
                      (case error_msg of
                         None \<Rightarrow> Inl (str_of ''NoneType object has no attribute lower'')
                       | Some msg \<Rightarrow> Inr (current, w1))))"

text \<open>
  The script from \<open>load_models()\<close> to its end. \<open>if not model: ... st.stop()\<close> ends the run
  before any widget of the main panel (a loaded classifier is truthy, \<open>None\<close> is not);
  "Limpiar todo" empties the text and reruns before the analysis is reached.
\<close>

definition app ::
  "voice_config \<Rightarrow> speech_env \<Rightarrow> modules \<Rightarrow> classifier artifact \<Rightarrow> label_encoder artifact \<Rightarrow>
     ui \<Rightarrow> pystr option \<Rightarrow> world \<Rightarrow> run" where
  "app cfg env m svm_file le_file u session w =
     (case load_models svm_file le_file of
        None \<Rightarrow> \<lparr>shown = Degraded, calls = [], texto_completo = session, disk = w\<rparr>
      | Some (model, le) \<Rightarrow>
          (case dictado cfg env (audio_bytes u) (case session of None \<Rightarrow> [] | Some t \<Rightarrow> t) w of
             Inl e \<Rightarrow> \<lparr>shown = Raised e, calls = [], texto_completo = session, disk = w\<rparr>
           | Inr (current, w1) \<Rightarrow>
               (let texto_input = text_area u current in
                if limpiar_todo u then
                  \<lparr>shown = Cleared, calls = [], texto_completo = Some [], disk = w1\<rparr>
                else
                  (case analizar_handler m model le (analizar u) texto_input of
                     (p, cs) \<Rightarrow>
                       \<lparr>shown = p, calls = cs, texto_completo = Some texto_input, disk = w1\<rparr>))))"

text \<open>
  A run serves urgency scoring and referral routing when it calls both components.
\<close>

fun is_scoring :: "call \<Rightarrow> bool" where
  "is_scoring (CalcularPrioridad t) = True"
| "is_scoring c = False"

fun is_routing :: "call \<Rightarrow> bool" where
  "is_routing (CalcularDerivacion n s) = True"
| "is_routing c = False"

fun is_classifying :: "call \<Rightarrow> bool" where
  "is_classifying (PredictProba t) = True"
| "is_classifying c = False"

definition scoring_and_routing_served :: "run \<Rightarrow> bool" where
  "scoring_and_routing_served r \<longleftrightarrow> list_ex is_scoring (calls r) \<and> list_ex is_routing (calls r)"

subsection \<open>Sample components and requests\<close>

text \<open>
  One admissible argsort, for the examples: an insertion sort of the indices. A vector
  with equal entries has other admissible results, such as \<open>unstable4\<close> for \<open>probs4\<close>.
\<close>

definition insertion_argsort :: "real list \<Rightarrow> nat list" where
  "insertion_argsort a = sort_key (\<lambda>i. a ! i) [0..<length a]"

definition unstable4 :: "real list \<Rightarrow> nat list" where
  "unstable4 a = [2, 0, 3, 1]"

definition sample_modules :: modules where
  "sample_modules =
     \<lparr>limpiar_texto_medico = (\<lambda>t. py_strip t),
      calcular_prioridad =
        (\<lambda>t. \<lparr>nivel = 3, nombre = str_of ''Urgente'', color = str_of ''#f1c40f'',
               tiempo = str_of ''60 min''\<rparr>),
      calcular_derivacion =
        (\<lambda>n s. \<lparr>icono = str_of ''H'', tipo = str_of ''Consulta externa'',
                 accion = str_of ''Derivar'', mensaje = s\<rparr>),
      np_argsort = insertion_argsort\<rparr>"

definition sample_probs :: "real list" where
  "sample_probs = [0.2, 0.7, 0.1]"

definition tied_probs :: "real list" where
  "tied_probs = [0.4, 0.4, 0.2]"

definition probs4 :: "real list" where
  "probs4 = [0.1, 0.5, 0.1, 0.3]"

definition sample_model :: classifier where
  "sample_model = (\<lambda>t. sample_probs)"

definition tied_model :: classifier where
  "tied_model = (\<lambda>t. tied_probs)"

definition sample_le :: label_encoder where
  "sample_le = [str_of ''Cardiologia'', str_of ''Gastroenterologia'', str_of ''Neurologia'']"

definition texto_con_espacios :: pystr where
  "texto_con_espacios = str_of ''tos seca  ''"

definition texto_valido :: pystr where
  "texto_valido = str_of ''dolor abdominal intenso''"

definition sample_ui :: ui where
  "sample_ui =
     \<lparr>audio_bytes = None, text_area = (\<lambda>current. texto_valido), analizar = True,
      limpiar_todo = False\<rparr>"

section \<open>Properties\<close>

subsection \<open>Strings\<close>

lemma all_dropWhile_iff: "(\<forall>x\<in>set (dropWhile P s). P x) \<longleftrightarrow> (\<forall>x\<in>set s. P x)"
  by (induction s) auto

lemma py_strip_empty_iff: "py_strip s = [] \<longleftrightarrow> list_all py_isspace s"
  by (simp add: py_strip_def dropWhile_eq_Nil_conv list_all_iff all_dropWhile_iff)

lemma str_of_space: "str_of '' '' = [32]"
  by (simp add: str_of_def)

subsection \<open>Merging a transcript into the case text\<close>

text \<open>
  C4. For every pair of strings, \<open>append_text\<close> (the spec's mergeTranscript) returns the
  incoming text when the existing text is empty or consists of whitespace only, and
  otherwise the existing text, one space and the incoming text, nothing trimmed and
  nothing removed.
\<close>

theorem append_text_merge:
  "append_text existing incoming =
     (if existing = [] \<or> list_all py_isspace existing then incoming
      else existing @ [32] @ incoming)"
  by (simp add: append_text_def py_strip_empty_iff str_of_space)

theorem append_text_merge_witness:
  "append_text (str_of '''') (str_of ''fiebre alta'') = str_of ''fiebre alta'' \<and>
   append_text (str_of ''dolor abdominal'') (str_of ''y v'' @ [243] @ str_of ''mitos'') =
     str_of ''dolor abdominal y v'' @ [243] @ str_of ''mitos'' \<and>
   append_text (str_of ''  '') (str_of ''tos'') = str_of ''tos'' \<and>
   append_text (str_of ''tos '') (str_of ''tos'') = str_of ''tos  tos''"
  using append_text_merge [of "str_of ''''" "str_of ''fiebre alta''"]
    append_text_merge [of "str_of ''dolor abdominal''" "str_of ''y v'' @ [243] @ str_of ''mitos''"]
    append_text_merge [of "str_of ''  ''" "str_of ''tos''"]
    append_text_merge [of "str_of ''tos ''" "str_of ''tos''"]
  by (simp add: str_of_def py_isspace_def)

subsection \<open>Transcription\<close>

lemma cleanup_never_raises: "fst (cleanup_temp_file env w) = Inr ()"
  by (simp add: cleanup_temp_file_def os_remove_def Let_def split: option.splits)

lemma cleanup_log: "sr_log (snd (cleanup_temp_file env w)) = sr_log w @ [CleanupTempFile]"
  by (simp add: cleanup_temp_file_def os_remove_def emit_def Let_def split: option.splits)

lemma cleanup_file:
  "temp_file (snd (cleanup_temp_file env w)) =
     (if fs_remove env = None then None else temp_file w)"
  by (auto simp add: cleanup_temp_file_def os_remove_def emit_def Let_def split: option.splits)

lemma after_cleanup_eq: "after_cleanup env w r = (Inr r, snd (cleanup_temp_file env w))"
  using cleanup_never_raises [of env w]
  by (cases "cleanup_temp_file env w") (auto simp add: after_cleanup_def split: sum.splits)

lemmas transcribe_unfold =
  transcribe_audio_def try_block_def load_block_def recognize_block_def after_cleanup_eq Let_def

lemmas outcome_splits =
  write_outcome.splits load_outcome.splits recog_outcome.splits option.splits

lemma transcribe_audio_result:
  "fst (transcribe_audio cfg env a l w) = Inr (as_triple (expected_outcome cfg env a l))"
  by (simp add: transcribe_unfold expected_outcome_def service_outcome_def split: outcome_splits)

lemma transcribe_audio_log:
  "\<exists>es. sr_log (snd (transcribe_audio cfg env a l w)) = sr_log w @ es @ [CleanupTempFile] \<and>
        CleanupTempFile \<notin> set es"
  by (simp add: transcribe_unfold cleanup_log emit_def split: outcome_splits)

lemma transcribe_audio_file:
  "temp_file (snd (transcribe_audio cfg env a l w)) =
     (if fs_remove env = None then None
      else case fs_write env of
             OpenFails e \<Rightarrow> temp_file w
           | WriteFails partial e \<Rightarrow> Some partial
           | Written \<Rightarrow> Some a)"
  by (auto simp add: transcribe_unfold cleanup_file emit_def split: outcome_splits)

lemma as_triple_inj: "as_triple x = as_triple y \<Longrightarrow> x = y"
  by (cases x; cases y)
    (simp_all add: msg_no_entendido_def msg_servicio_def msg_procesando_def str_of_def)

lemma engine_calls_from_settings:
  "list_all (from_settings cfg l) (engine_calls cfg env a l w)"
  by (simp add: engine_calls_def transcribe_unfold cleanup_log emit_def configured_recognizer_def
      split: outcome_splits)

lemma engine_calls_written:
  "fs_write env = Written \<Longrightarrow>
     Configured (configured_recognizer cfg) \<in> set (engine_calls cfg env a l w)"
  by (simp add: engine_calls_def transcribe_unfold cleanup_log emit_def configured_recognizer_def
      split: outcome_splits)

lemma engine_calls_recorded:
  "fs_write env = Written \<Longrightarrow>
   sr_load env a (configured_recognizer cfg) (VOICE_AMBIENT_DURATION cfg) = Recorded d \<Longrightarrow>
     engine_calls cfg env a l w =
       [Configured (configured_recognizer cfg), AdjustForAmbientNoise (VOICE_AMBIENT_DURATION cfg),
        RecognizeGoogle (case l of None \<Rightarrow> VOICE_LANGUAGE cfg | Some l' \<Rightarrow> l'), CleanupTempFile]"
  by (simp add: engine_calls_def transcribe_unfold cleanup_log emit_def configured_recognizer_def
      split: outcome_splits)

lemma transcribe_audio_log_remove:
  "sr_log (snd (transcribe_audio cfg (env\<lparr>fs_remove := rm\<rparr>) a l w)) =
     sr_log (snd (transcribe_audio cfg env a l w))"
  by (simp add: transcribe_unfold cleanup_log emit_def split: outcome_splits)

lemma transcribe_audio_result_remove:
  "fst (transcribe_audio cfg (env\<lparr>fs_remove := rm\<rparr>) a l w) =
     fst (transcribe_audio cfg env a l w)"
  by (simp add: transcribe_audio_result expected_outcome_def
      split: write_outcome.splits load_outcome.splits)

text \<open>
  C5. Every call of \<open>transcribe_audio\<close> ends with one call of \<open>cleanup_temp_file\<close>,
  whatever the outcome (a transcript, each of the three failures, any other exception
  inside the \<open>try\<close>), and returns its triple. A failing \<open>os.remove\<close> is swallowed: it never
  becomes an exception of the call, and neither the returned triple nor the calls made
  depend on whether \<open>os.remove\<close> fails. When \<open>os.remove\<close> does not fail, the temporary
  file does not exist afterwards; when it fails, the file is left as the write left it.
\<close>

theorem transcribe_audio_cleanup:
  "(\<exists>r. fst (transcribe_audio cfg env a l w) = Inr r) \<and>
   fst (transcribe_audio cfg (env\<lparr>fs_remove := rm\<rparr>) a l w) =
     fst (transcribe_audio cfg env a l w) \<and>
   sr_log (snd (transcribe_audio cfg (env\<lparr>fs_remove := rm\<rparr>) a l w)) =
     sr_log (snd (transcribe_audio cfg env a l w)) \<and>
   last (sr_log (snd (transcribe_audio cfg env a l w))) = CleanupTempFile \<and>
   count_list (engine_calls cfg env a l w) CleanupTempFile = 1 \<and>
   (fs_remove env = None \<longrightarrow> temp_file (snd (transcribe_audio cfg env a l w)) = None) \<and>
   temp_file (snd (transcribe_audio cfg env a l w)) =
     (if fs_remove env = None then None
      else case fs_write env of
             OpenFails e \<Rightarrow> temp_file w
           | WriteFails partial e \<Rightarrow> Some partial
           | Written \<Rightarrow> Some a)"
proof -
  obtain es where es: "sr_log (snd (transcribe_audio cfg env a l w)) = sr_log w @ es @ [CleanupTempFile]"
    and fresh: "CleanupTempFile \<notin> set es"
    using transcribe_audio_log by blast
  have "count_list (es @ [CleanupTempFile]) CleanupTempFile = 1"
    using fresh by (simp add: count_list_0_iff)
  then have "count_list (engine_calls cfg env a l w) CleanupTempFile = 1"
    by (simp add: engine_calls_def es)
  moreover have "last (sr_log (snd (transcribe_audio cfg env a l w))) = CleanupTempFile"
    by (simp add: es)
  moreover have "\<exists>r. fst (transcribe_audio cfg env a l w) = Inr r"
    by (intro exI) (rule transcribe_audio_result)
  ultimately show ?thesis
    by (simp add: transcribe_audio_result_remove transcribe_audio_log_remove
        transcribe_audio_file)
qed

theorem transcribe_audio_cleanup_witness:
  "fs_remove env_unparsed = None \<and>
   transcribe_audio voice_defaults env_unparsed clip None fresh_world =
     (Inr (False, None, Some msg_no_entendido),
      \<lparr>temp_file = None,
       sr_log = [Configured \<lparr>energy_threshold = 4000, dynamic_energy_threshold = True\<rparr>,
                 AdjustForAmbientNoise 0.5, RecognizeGoogle (str_of ''es-ES''),
                 CleanupTempFile]\<rparr>) \<and>
   fs_remove env_read_only = Some (str_of ''Permission denied'') \<and>
   transcribe_audio voice_defaults env_read_only clip None stale_world =
     (Inr (False, None, Some (msg_procesando @ str_of ''Permission denied'')),
      \<lparr>temp_file = Some [0], sr_log = [CleanupTempFile]\<rparr>) \<and>
   transcribe_audio voice_defaults (env_read_only\<lparr>fs_remove := None\<rparr>) clip None stale_world =
     (Inr (False, None, Some (msg_procesando @ str_of ''Permission denied'')),
      \<lparr>temp_file = None, sr_log = [CleanupTempFile]\<rparr>)"
  using transcribe_audio_cleanup [of voice_defaults env_unparsed clip None fresh_world]
    transcribe_audio_cleanup [of voice_defaults env_read_only clip None stale_world]
  by (simp add: transcribe_unfold cleanup_temp_file_def os_remove_def emit_def
      env_unparsed_def env_heard_def env_read_only_def voice_defaults_def fresh_world_def
      stale_world_def)

text \<open>
  C6. Every call yields exactly one of the four tagged outcomes, and it is the one the
  specification names: Success with the transcript, Unrecognized when the service
  extracts no utterance, ServiceError when the service is unreachable or rejects the
  request, ProcessingError for any other failure (writing the file, loading the audio,
  any other exception of the service call).
\<close>

theorem transcribe_audio_tagged_outcome:
  "(\<exists>!r. fst (transcribe_audio cfg env a l w) = Inr (as_triple r)) \<and>
   fst (transcribe_audio cfg env a l w) = Inr (as_triple (expected_outcome cfg env a l))"
  using as_triple_inj by (auto simp add: transcribe_audio_result)

theorem transcribe_audio_tagged_outcome_witness:
  "fst (transcribe_audio voice_defaults env_heard clip None fresh_world) =
     Inr (as_triple (Success (str_of ''fiebre alta''))) \<and>
   fst (transcribe_audio voice_defaults env_unparsed clip None fresh_world) =
     Inr (as_triple Unrecognized) \<and>
   fst (transcribe_audio voice_defaults env_offline clip None fresh_world) =
     Inr (as_triple (ServiceError (str_of ''recognition connection failed''))) \<and>
   fst (transcribe_audio voice_defaults env_disk_full clip None fresh_world) =
     Inr (as_triple (ProcessingError (str_of ''No space left on device'')))"
  using transcribe_audio_tagged_outcome [of voice_defaults env_heard clip None fresh_world]
    transcribe_audio_tagged_outcome [of voice_defaults env_unparsed clip None fresh_world]
    transcribe_audio_tagged_outcome [of voice_defaults env_offline clip None fresh_world]
    transcribe_audio_tagged_outcome [of voice_defaults env_disk_full clip None fresh_world]
  by (simp add: expected_outcome_def service_outcome_def env_heard_def env_unparsed_def
      env_offline_def env_disk_full_def voice_defaults_def)

text \<open>
  C10. In the returned triple exactly one of text and error message is present: with the
  success flag the text is a string and the message is \<open>None\<close>, without it the text is
  \<open>None\<close> and the message is a non-empty string.
\<close>

theorem transcribe_audio_triple_invariant:
  "\<exists>ok text err.
     fst (transcribe_audio cfg env a l w) = Inr (ok, text, err) \<and>
     (if ok then text \<noteq> None \<and> err = None
      else text = None \<and> err \<noteq> None \<and> err \<noteq> Some [])"
  by (cases "expected_outcome cfg env a l")
    (auto simp add: transcribe_audio_result msg_no_entendido_def msg_servicio_def
      msg_procesando_def str_of_def)


lemma engine_calls_cases:
  "engine_calls cfg env a l w =
     (case fs_write env of
        OpenFails e \<Rightarrow> [CleanupTempFile]
      | WriteFails partial e \<Rightarrow> [CleanupTempFile]
      | Written \<Rightarrow>
          (case sr_load env a (configured_recognizer cfg) (VOICE_AMBIENT_DURATION cfg) of
             AudioFileFails e \<Rightarrow> [Configured (configured_recognizer cfg), CleanupTempFile]
           | AdjustFails e \<Rightarrow>
               [Configured (configured_recognizer cfg),
                AdjustForAmbientNoise (VOICE_AMBIENT_DURATION cfg), CleanupTempFile]
           | RecordFails e \<Rightarrow>
               [Configured (configured_recognizer cfg),
                AdjustForAmbientNoise (VOICE_AMBIENT_DURATION cfg), CleanupTempFile]
           | Recorded audio_data \<Rightarrow>
               [Configured (configured_recognizer cfg),
                AdjustForAmbientNoise (VOICE_AMBIENT_DURATION cfg),
                RecognizeGoogle (case l of None \<Rightarrow> VOICE_LANGUAGE cfg | Some l' \<Rightarrow> l'),
                CleanupTempFile]))"
  by (simp add: engine_calls_def transcribe_unfold cleanup_log emit_def configured_recognizer_def
      split: outcome_splits)

text \<open>
  C9 (as amended). The four parameters are the values of \<open>src.config\<close> when it can be
  imported and "es-ES", 4000, True and 0.5 otherwise. Whatever a call does to the engine
  uses them: every recognizer it configures gets the configured thresholds, every
  calibration the configured duration, and the language of the request is the call's
  \<open>language\<close> argument when one is given and the configured language otherwise. A call
  that wrote the clip configures a recognizer, and one that also loaded the audio performs
  exactly the four engine steps. A call that cannot write the clip configures no
  recognizer and reaches no engine, one whose audio file cannot be opened calibrates
  nothing, and one whose audio cannot be loaded sends no request.
\<close>

theorem voice_settings_applied:
  "voice_settings None =
     \<lparr>VOICE_LANGUAGE = str_of ''es-ES'', VOICE_ENERGY_THRESHOLD = 4000,
      VOICE_DYNAMIC_THRESHOLD = True, VOICE_AMBIENT_DURATION = 0.5\<rparr> \<and>
   voice_settings (Some c) = c \<and>
   list_all (from_settings cfg l) (engine_calls cfg env a l w) \<and>
   (fs_write env = Written \<longrightarrow>
      Configured (configured_recognizer cfg) \<in> set (engine_calls cfg env a l w)) \<and>
   (fs_write env = Written \<and>
    sr_load env a (configured_recognizer cfg) (VOICE_AMBIENT_DURATION cfg) = Recorded d \<longrightarrow>
      engine_calls cfg env a l w =
        [Configured (configured_recognizer cfg),
         AdjustForAmbientNoise (VOICE_AMBIENT_DURATION cfg),
         RecognizeGoogle (case l of None \<Rightarrow> VOICE_LANGUAGE cfg | Some l' \<Rightarrow> l'),
         CleanupTempFile]) \<and>
   engine_calls cfg env a l w =
     (case fs_write env of
        OpenFails e \<Rightarrow> [CleanupTempFile]
      | WriteFails partial e \<Rightarrow> [CleanupTempFile]
      | Written \<Rightarrow>
          (case sr_load env a (configured_recognizer cfg) (VOICE_AMBIENT_DURATION cfg) of
             AudioFileFails e \<Rightarrow> [Configured (configured_recognizer cfg), CleanupTempFile]
           | AdjustFails e \<Rightarrow>
               [Configured (configured_recognizer cfg),
                AdjustForAmbientNoise (VOICE_AMBIENT_DURATION cfg), CleanupTempFile]
           | RecordFails e \<Rightarrow>
               [Configured (configured_recognizer cfg),
                AdjustForAmbientNoise (VOICE_AMBIENT_DURATION cfg), CleanupTempFile]
           | Recorded audio_data \<Rightarrow>
               [Configured (configured_recognizer cfg),
                AdjustForAmbientNoise (VOICE_AMBIENT_DURATION cfg),
                RecognizeGoogle (case l of None \<Rightarrow> VOICE_LANGUAGE cfg | Some l' \<Rightarrow> l'),
                CleanupTempFile]))"
proof -
  have "voice_settings None =
     \<lparr>VOICE_LANGUAGE = str_of ''es-ES'', VOICE_ENERGY_THRESHOLD = 4000,
      VOICE_DYNAMIC_THRESHOLD = True, VOICE_AMBIENT_DURATION = 0.5\<rparr>"
    and "voice_settings (Some c) = c"
    by (simp_all add: voice_settings_def voice_defaults_def)
  then show ?thesis
    using engine_calls_from_settings [of cfg l env a w] engine_calls_written [of env cfg a l w]
      engine_calls_recorded [of env a cfg d l w] engine_calls_cases [of cfg env a l w]
    by blast
qed

theorem voice_settings_applied_witness:
  "fs_write env_heard = Written \<and>
   sr_load env_heard clip (configured_recognizer (voice_settings None))
     (VOICE_AMBIENT_DURATION (voice_settings None)) = Recorded clip \<and>
   engine_calls (voice_settings None) env_heard clip None fresh_world =
     [Configured \<lparr>energy_threshold = 4000, dynamic_energy_threshold = True\<rparr>,
      AdjustForAmbientNoise 0.5, RecognizeGoogle (str_of ''es-ES''), CleanupTempFile] \<and>
   fs_write env_disk_full = WriteFails [82] (str_of ''No space left on device'') \<and>
   engine_calls (voice_settings None) env_disk_full clip None fresh_world = [CleanupTempFile]"
proof -
  let ?cfg = "voice_settings None"
  have written: "fs_write env_heard = Written"
    by (simp add: env_heard_def)
  have recorded:
    "sr_load env_heard clip (configured_recognizer ?cfg) (VOICE_AMBIENT_DURATION ?cfg) =
       Recorded clip"
    by (simp add: env_heard_def)
  have full: "fs_write env_disk_full = WriteFails [82] (str_of ''No space left on device'')"
    by (simp add: env_disk_full_def env_heard_def)
  have "engine_calls ?cfg env_heard clip None fresh_world =
      [Configured (configured_recognizer ?cfg), AdjustForAmbientNoise (VOICE_AMBIENT_DURATION ?cfg),
       RecognizeGoogle (case None of None \<Rightarrow> VOICE_LANGUAGE ?cfg | Some l' \<Rightarrow> l'),
       CleanupTempFile]"
    using voice_settings_applied [of ?cfg ?cfg None env_heard clip fresh_world clip]
      written recorded by blast
  moreover have "engine_calls ?cfg env_disk_full clip None fresh_world = [CleanupTempFile]"
    by (subst voice_settings_applied [of ?cfg ?cfg None env_disk_full clip fresh_world clip,
          THEN conjunct2, THEN conjunct2, THEN conjunct2, THEN conjunct2, THEN conjunct2])
      (simp add: full)
  ultimately show ?thesis
    using written recorded full
    by (simp add: voice_settings_def voice_defaults_def configured_recognizer_def)
qed

theorem voice_settings_applied_counterexample:
  "\<not> applies_settings voice_defaults
       (engine_calls voice_defaults env_heard clip (Some (str_of ''en-US'')) fresh_world) \<and>
   engine_calls voice_defaults env_heard clip (Some (str_of ''en-US'')) fresh_world =
     [Configured \<lparr>energy_threshold = 4000, dynamic_energy_threshold = True\<rparr>,
      AdjustForAmbientNoise 0.5, RecognizeGoogle (str_of ''en-US''), CleanupTempFile] \<and>
   \<not> applies_settings voice_defaults
       (engine_calls voice_defaults env_read_only clip None fresh_world) \<and>
   engine_calls voice_defaults env_read_only clip None fresh_world = [CleanupTempFile]"
  by (simp add: applies_settings_def engine_calls_def transcribe_unfold cleanup_temp_file_def
      os_remove_def emit_def env_heard_def env_read_only_def voice_defaults_def fresh_world_def
      configured_recognizer_def str_of_def)

subsection \<open>Confidence bands\<close>

text \<open>
  C3. For every confidence in [0, 1]: above 0.8 the card shows high certainty, above 0.5
  and up to 0.8 medium certainty, up to 0.5 low certainty; 0.80 itself is medium and 0.50
  itself is low.
\<close>

theorem nivel_de_certeza_bands:
  "(0 \<le> c \<and> c \<le> 1 \<longrightarrow>
      (0.8 < c \<longrightarrow> nivel_de_certeza c = Alto) \<and>
      (0.5 < c \<and> c \<le> 0.8 \<longrightarrow> nivel_de_certeza c = Medio) \<and>
      (c \<le> 0.5 \<longrightarrow> nivel_de_certeza c = Bajo)) \<and>
   nivel_de_certeza 0.8 = Medio \<and> nivel_de_certeza 0.5 = Bajo"
  by (simp add: nivel_de_certeza_def)

theorem nivel_de_certeza_bands_witness:
  "nivel_de_certeza 0.80001 = Alto \<and> nivel_de_certeza 0.80 = Medio \<and>
   nivel_de_certeza 0.50001 = Medio \<and> nivel_de_certeza 0.50 = Bajo \<and>
   nivel_de_certeza 1 = Alto \<and> nivel_de_certeza 0 = Bajo"
  using nivel_de_certeza_bands [of "0.80001"] nivel_de_certeza_bands [of "0.50001"]
    nivel_de_certeza_bands [of 1] nivel_de_certeza_bands [of 0]
  by simp

subsection \<open>The predicted specialty\<close>

lemma argmax_loop_first:
  "k < length pre \<Longrightarrow> \<forall>j < length pre. pre ! j \<le> pre ! k \<Longrightarrow> \<forall>j < k. pre ! j < pre ! k \<Longrightarrow>
     is_first_argmax (pre @ xs) (argmax_loop xs (length pre) (pre ! k) k)"
proof (induction xs arbitrary: pre k)
  case Nil
  then show ?case by (simp add: is_first_argmax_def)
next
  case (Cons x xs)
  show ?case
  proof (cases "x > pre ! k")
    case True
    have "is_first_argmax ((pre @ [x]) @ xs)
            (argmax_loop xs (length (pre @ [x])) ((pre @ [x]) ! length pre) (length pre))"
    proof (rule Cons.IH)
      show "length pre < length (pre @ [x])" by simp
      show "\<forall>j<length (pre @ [x]). (pre @ [x]) ! j \<le> (pre @ [x]) ! length pre"
        using Cons.prems(2) True by (auto simp add: nth_append less_Suc_eq intro: less_imp_le order_trans)
      show "\<forall>j<length pre. (pre @ [x]) ! j < (pre @ [x]) ! length pre"
        using Cons.prems(2) True by (auto simp add: nth_append)
    qed
    then show ?thesis using True by simp
  next
    case False
    have "is_first_argmax ((pre @ [x]) @ xs)
            (argmax_loop xs (length (pre @ [x])) ((pre @ [x]) ! k) k)"
    proof (rule Cons.IH)
      show "k < length (pre @ [x])" using Cons.prems(1) by simp
      show "\<forall>j<length (pre @ [x]). (pre @ [x]) ! j \<le> (pre @ [x]) ! k"
        using Cons.prems False by (auto simp add: nth_append less_Suc_eq)
      show "\<forall>j<k. (pre @ [x]) ! j < (pre @ [x]) ! k"
        using Cons.prems by (auto simp add: nth_append)
    qed
    then show ?thesis using False Cons.prems(1) by (simp add: nth_append)
  qed
qed

lemma np_argmax_first:
  "a \<noteq> [] \<Longrightarrow> \<exists>m. np_argmax a = Inr m \<and> is_first_argmax a m"
proof (cases a)
  case Nil
  then show "a \<noteq> [] \<Longrightarrow> ?thesis" by simp
next
  case (Cons x xs)
  have "is_first_argmax ([x] @ xs) (argmax_loop xs (length [x]) ([x] ! 0) 0)"
    by (rule argmax_loop_first) simp_all
  then show ?thesis using Cons by (simp add: np_argmax_def)
qed

lemma is_first_argmax_Max:
  "is_first_argmax a m \<Longrightarrow> a ! m = Max (set a)"
  unfolding is_first_argmax_def
  by (metis List.finite_set Max_eqI in_set_conv_nth nth_mem)

lemma is_first_argmax_unique:
  "is_first_argmax a m \<Longrightarrow> is_first_argmax a n \<Longrightarrow> m = n"
  unfolding is_first_argmax_def
  by (metis linorder_neqE_nat not_less)

lemma np_argmax_sample: "np_argmax sample_probs = Inr 1"
  unfolding sample_probs_def by code_simp

lemma np_argmax_tied: "np_argmax tied_probs = Inr 0"
  unfolding tied_probs_def by code_simp

lemma predecir_sample:
  "predecir sample_model sample_le t =
     Inr (sample_probs, 1, sample_probs ! 1, str_of ''Gastroenterologia'')"
  by (simp add: predecir_def sample_model_def np_argmax_sample inverse_transform_def sample_le_def)

lemma predecir_tied:
  "predecir tied_model sample_le t =
     Inr (tied_probs, 0, tied_probs ! 0, str_of ''Cardiologia'')"
  by (simp add: predecir_def tied_model_def np_argmax_tied inverse_transform_def sample_le_def)

text \<open>
  C7. Whenever the prediction returns, the predicted specialty is the label at the argmax
  of the probability vector and the confidence is the maximal probability; among several
  maximal entries the lowest index is taken. The prediction does return for every
  non-empty vector that is no longer than the list of labels.
\<close>

theorem predecir_first_argmax:
  "(model t \<noteq> [] \<and> length (model t) \<le> length le \<longrightarrow>
      (\<exists>m. predecir model le t = Inr (model t, m, model t ! m, le ! m))) \<and>
   (predecir model le t = Inr (pred_probs, max_idx, confidence, especialidad_pred) \<longrightarrow>
      pred_probs = model t \<and> is_first_argmax pred_probs max_idx \<and>
      confidence = Max (set pred_probs) \<and> especialidad_pred = le ! max_idx)"
proof (intro conjI impI)
  assume ok: "model t \<noteq> [] \<and> length (model t) \<le> length le"
  then obtain m where m: "np_argmax (model t) = Inr m" "is_first_argmax (model t) m"
    using np_argmax_first by blast
  then have "m < length le"
    using ok by (simp add: is_first_argmax_def)
  then show "\<exists>m. predecir model le t = Inr (model t, m, model t ! m, le ! m)"
    using m(1) by (simp add: predecir_def inverse_transform_def Let_def)
next
  assume r: "predecir model le t = Inr (pred_probs, max_idx, confidence, especialidad_pred)"
  then have ne: "model t \<noteq> []"
    by (auto simp add: predecir_def np_argmax_def Let_def)
  then obtain m where m: "np_argmax (model t) = Inr m" "is_first_argmax (model t) m"
    using np_argmax_first by blast
  from r m(1) have eqs: "pred_probs = model t" "max_idx = m" "confidence = model t ! m"
      "especialidad_pred = le ! m"
    by (auto simp add: predecir_def inverse_transform_def Let_def split: if_splits)
  show "pred_probs = model t" by (rule eqs)
  show "is_first_argmax pred_probs max_idx" using m(2) eqs by simp
  show "confidence = Max (set pred_probs)" using is_first_argmax_Max [OF m(2)] eqs by simp
  show "especialidad_pred = le ! max_idx" using eqs by simp
qed

theorem predecir_first_argmax_witness:
  "predecir sample_model sample_le texto_valido =
     Inr (sample_probs, 1, sample_probs ! 1, str_of ''Gastroenterologia'') \<and>
   is_first_argmax sample_probs 1 \<and>
   predecir tied_model sample_le texto_valido =
     Inr (tied_probs, 0, tied_probs ! 0, str_of ''Cardiologia'') \<and>
   is_first_argmax tied_probs 0 \<and> tied_probs ! 0 = tied_probs ! 1"
proof -
  have "is_first_argmax sample_probs 1"
    using predecir_first_argmax [of sample_model texto_valido sample_le sample_probs 1
        "sample_probs ! 1" "str_of ''Gastroenterologia''"] predecir_sample by blast
  moreover have "is_first_argmax tied_probs 0"
    using predecir_first_argmax [of tied_model texto_valido sample_le tied_probs 0
        "tied_probs ! 0" "str_of ''Cardiologia''"] predecir_tied by blast
  ultimately show ?thesis
    using predecir_sample predecir_tied by (simp add: tied_probs_def)
qed

subsection \<open>The three most probable specialties\<close>

lemma insertion_argsort_is_argsort: "is_argsort a (insertion_argsort a)"
  by (simp add: is_argsort_def insertion_argsort_def)

lemma is_argsort_length: "is_argsort a idx \<Longrightarrow> length idx = length a"
  unfolding is_argsort_def by (metis card_atLeastLessThan diff_zero distinct_card)

lemma last3_reversed_length: "length (last3_reversed idx) = min 3 (length idx)"
  by (simp add: last3_reversed_def)

lemma last3_reversed_distinct: "distinct idx \<Longrightarrow> distinct (last3_reversed idx)"
  by (simp add: last3_reversed_def)

lemma last3_reversed_subset: "set (last3_reversed idx) \<subseteq> set idx"
  by (simp add: last3_reversed_def set_drop_subset)

lemma last3_reversed_sorted:
  "sorted_wrt R idx \<Longrightarrow> sorted_wrt (\<lambda>i j. R j i) (last3_reversed idx)"
  by (simp add: last3_reversed_def sorted_wrt_rev sorted_wrt_drop)

lemma last3_reversed_top:
  assumes "sorted_wrt R idx" and "j \<in> set idx" and "j \<notin> set (last3_reversed idx)"
    and "i \<in> set (last3_reversed idx)"
  shows "R j i"
proof -
  let ?k = "length idx - 3"
  have "sorted_wrt R (take ?k idx @ drop ?k idx)"
    using assms(1) by simp
  then have cross: "\<forall>x\<in>set (take ?k idx). \<forall>y\<in>set (drop ?k idx). R x y"
    unfolding sorted_wrt_append by blast
  have "set idx = set (take ?k idx) \<union> set (drop ?k idx)"
    by (metis append_take_drop_id set_append)
  then have "j \<in> set (take ?k idx)"
    using assms(2,3) by (auto simp add: last3_reversed_def)
  moreover have "i \<in> set (drop ?k idx)"
    using assms(4) by (simp add: last3_reversed_def)
  ultimately show ?thesis using cross by blast
qed

lemma any_argsort_ranked:
  assumes "is_argsort a idx"
  shows "ranked a (\<lambda>i j. True) (last3_reversed idx)"
proof -
  have "sorted_wrt (\<lambda>i j. a ! i \<le> a ! j) idx"
    using assms by (simp add: is_argsort_def sorted_map)
  then have "sorted_wrt (\<lambda>i j. a ! j \<le> a ! i) (last3_reversed idx)"
    by (rule last3_reversed_sorted)
  then show ?thesis
    unfolding ranked_def by (rule sorted_wrt_mono_rel [rotated]) auto
qed

lemma any_argsort_top:
  assumes "is_argsort a idx" and "j < length a" and "j \<notin> set (last3_reversed idx)"
    and "i \<in> set (last3_reversed idx)"
  shows "a ! j \<le> a ! i"
proof -
  have "sorted_wrt (\<lambda>i j. a ! i \<le> a ! j) idx"
    using assms(1) by (simp add: is_argsort_def sorted_map)
  moreover have "j \<in> set idx"
    using assms(1,2) by (simp add: is_argsort_def)
  ultimately show ?thesis
    using assms(3,4) by (rule last3_reversed_top)
qed

text \<open>
  C8 (as amended). Whatever admissible result \<open>np.argsort\<close> returns, the top-3 view is its
  last three indices reversed: the indices of three largest probabilities (all of them
  when there are fewer than three), in non-increasing order of probability. Among entries
  of equal probability the order, and which of them enters the view, is the one
  \<open>np.argsort\<close> returned them in; it need not be the original index order.
\<close>

theorem top3_idx_descending:
  "is_argsort a (argsort a) \<longrightarrow>
     top3_idx argsort a = rev (drop (length a - 3) (argsort a)) \<and>
     length (top3_idx argsort a) = min 3 (length a) \<and>
     distinct (top3_idx argsort a) \<and>
     set (top3_idx argsort a) \<subseteq> {0..<length a} \<and>
     ranked a (\<lambda>i j. True) (top3_idx argsort a) \<and>
     (\<forall>j<length a. j \<notin> set (top3_idx argsort a) \<longrightarrow>
        (\<forall>i\<in>set (top3_idx argsort a). a ! j \<le> a ! i))"
proof
  assume s: "is_argsort a (argsort a)"
  have len: "length (argsort a) = length a"
    using s by (rule is_argsort_length)
  have "top3_idx argsort a = rev (drop (length a - 3) (argsort a))"
    by (simp add: top3_idx_def last3_reversed_def len)
  moreover have "length (top3_idx argsort a) = min 3 (length a)"
    by (simp add: top3_idx_def last3_reversed_length len)
  moreover have "distinct (top3_idx argsort a)"
    using s by (simp add: top3_idx_def last3_reversed_distinct is_argsort_def)
  moreover have "set (top3_idx argsort a) \<subseteq> {0..<length a}"
    using s last3_reversed_subset [of "argsort a"] by (simp add: top3_idx_def is_argsort_def)
  moreover have "ranked a (\<lambda>i j. True) (top3_idx argsort a)"
    using any_argsort_ranked [OF s] by (simp add: top3_idx_def)
  moreover have "\<forall>j<length a. j \<notin> set (top3_idx argsort a) \<longrightarrow>
        (\<forall>i\<in>set (top3_idx argsort a). a ! j \<le> a ! i)"
    using any_argsort_top [OF s] by (simp add: top3_idx_def)
  ultimately show "top3_idx argsort a = rev (drop (length a - 3) (argsort a)) \<and>
     length (top3_idx argsort a) = min 3 (length a) \<and>
     distinct (top3_idx argsort a) \<and>
     set (top3_idx argsort a) \<subseteq> {0..<length a} \<and>
     ranked a (\<lambda>i j. True) (top3_idx argsort a) \<and>
     (\<forall>j<length a. j \<notin> set (top3_idx argsort a) \<longrightarrow>
        (\<forall>i\<in>set (top3_idx argsort a). a ! j \<le> a ! i))"
    by blast
qed

theorem top3_idx_descending_witness:
  "is_argsort probs4 (insertion_argsort probs4) \<and>
   top3_idx insertion_argsort probs4 = [1, 3, 2] \<and>
   ranked probs4 (\<lambda>i j. True) (top3_idx insertion_argsort probs4) \<and>
   is_argsort probs4 (unstable4 probs4) \<and>
   top3_idx unstable4 probs4 = [1, 3, 0] \<and>
   ranked probs4 (\<lambda>i j. True) (top3_idx unstable4 probs4) \<and>
   probs4 ! 0 = probs4 ! 2"
proof -
  have s1: "is_argsort probs4 (insertion_argsort probs4)"
    by (rule insertion_argsort_is_argsort)
  have "insertion_argsort probs4 = [0, 2, 3, 1]"
    unfolding probs4_def by code_simp
  then have t1: "top3_idx insertion_argsort probs4 = [1, 3, 2]"
    by (simp add: top3_idx_def last3_reversed_def)
  have s2: "is_argsort probs4 (unstable4 probs4)"
    unfolding probs4_def unstable4_def by (auto simp add: is_argsort_def)
  have t2: "top3_idx unstable4 probs4 = [1, 3, 0]"
    by (simp add: top3_idx_def last3_reversed_def unstable4_def)
  have "ranked probs4 (\<lambda>i j. True) (top3_idx insertion_argsort probs4)"
    using top3_idx_descending [of probs4 insertion_argsort] s1 by blast
  moreover have "ranked probs4 (\<lambda>i j. True) (top3_idx unstable4 probs4)"
    using top3_idx_descending [of probs4 unstable4] s2 by blast
  ultimately show ?thesis
    using s1 t1 s2 t2 by (simp add: probs4_def)
qed

theorem top3_idx_ties_counterexample:
  "insertion_argsort tied_probs = [2, 0, 1] \<and>
   is_argsort tied_probs (insertion_argsort tied_probs) \<and>
   top3_idx insertion_argsort tied_probs = [1, 0, 2] \<and> tied_probs ! 1 = tied_probs ! 0 \<and>
   \<not> descending_ties_by_index tied_probs (top3_idx insertion_argsort tied_probs)"
proof -
  have s: "insertion_argsort tied_probs = [2, 0, 1]"
    unfolding tied_probs_def by code_simp
  have a: "is_argsort tied_probs (insertion_argsort tied_probs)"
    by (rule insertion_argsort_is_argsort)
  have t: "top3_idx insertion_argsort tied_probs = [1, 0, 2]"
    by (simp add: top3_idx_def s last3_reversed_def)
  have "\<not> descending_ties_by_index tied_probs [1, 0, 2]"
    by (simp add: descending_ties_by_index_def ranked_def tied_probs_def)
  then show ?thesis
    using s a t by (simp add: tied_probs_def)
qed

subsection \<open>The analysis handler\<close>

lemma chart_data_sample:
  "chart_data insertion_argsort sample_le sample_probs =
     Inr [(str_of ''Gastroenterologia'', 0.7), (str_of ''Cardiologia'', 0.2),
          (str_of ''Neurologia'', 0.1)]"
proof -
  have "insertion_argsort sample_probs = [2, 0, 1]"
    unfolding sample_probs_def by code_simp
  then have "top3_idx insertion_argsort sample_probs = [1, 0, 2]"
    by (simp add: top3_idx_def last3_reversed_def)
  then show ?thesis
    by (simp add: chart_data_def inverse_transform_def sample_le_def sample_probs_def)
qed

lemma analisis_sample_calls:
  "10 \<le> length t \<Longrightarrow>
   snd (analizar_handler sample_modules sample_model sample_le True t) =
     [LimpiarTextoMedico t, PredictProba (py_strip t), CalcularPrioridad t,
      CalcularDerivacion 3 (str_of ''Gastroenterologia'')] \<and>
   (\<exists>r. fst (analizar_handler sample_modules sample_model sample_le True t) = Results r)"
  by (auto simp add: analizar_handler_def analisis_def predecir_sample chart_data_sample
      sample_modules_def)

text \<open>
  C1 (as amended). With "Analizar" pressed, every text of fewer than 10 characters, counted
  as typed with no trimming, calls no component: a non-empty one gets the "too brief"
  warning and the empty one the "enter a description" error. Every text of 10 characters or
  more, whitespace included, goes on to the normalizer and the classifier.
\<close>

theorem analizar_handler_short_text:
  "(length texto_input < 10 \<longrightarrow>
      analizar_handler m model le True texto_input =
        (if texto_input = [] then NoDescription else TooBrief, [])) \<and>
   (10 \<le> length texto_input \<longrightarrow>
      take 2 (snd (analizar_handler m model le True texto_input)) =
        [LimpiarTextoMedico texto_input, PredictProba (limpiar_texto_medico m texto_input)])"
  by (auto simp add: analizar_handler_def analisis_def Let_def split: sum.splits prod.splits)

theorem analizar_handler_short_text_witness:
  "length (str_of ''tos seca'') < 10 \<and>
   analizar_handler sample_modules sample_model sample_le True (str_of ''tos seca'') =
     (TooBrief, []) \<and>
   length (str_of []) < 10 \<and>
   analizar_handler sample_modules sample_model sample_le True (str_of []) =
     (NoDescription, []) \<and>
   10 \<le> length texto_valido \<and>
   take 2 (snd (analizar_handler sample_modules sample_model sample_le True texto_valido)) =
     [LimpiarTextoMedico texto_valido, PredictProba texto_valido]"
proof -
  have short: "length (str_of ''tos seca'') < 10" "length (str_of []) < 10"
    by (simp_all add: str_of_def)
  have long: "10 \<le> length texto_valido"
    by (simp add: texto_valido_def str_of_def)
  have clean: "limpiar_texto_medico sample_modules texto_valido = texto_valido"
    by (simp add: sample_modules_def texto_valido_def py_strip_def py_isspace_def str_of_def)
  show ?thesis
    using short long clean
      analizar_handler_short_text [of "str_of ''tos seca''" sample_modules sample_model sample_le]
      analizar_handler_short_text [of "str_of []" sample_modules sample_model sample_le]
      analizar_handler_short_text [of texto_valido sample_modules sample_model sample_le]
    by (simp add: str_of_def)
qed

theorem analizar_handler_trimmed_counterexample:
  "length (py_strip texto_con_espacios) = 8 \<and> length texto_con_espacios = 10 \<and>
   fst (analizar_handler sample_modules sample_model sample_le True texto_con_espacios) \<noteq> TooBrief \<and>
   snd (analizar_handler sample_modules sample_model sample_le True texto_con_espacios) =
     [LimpiarTextoMedico texto_con_espacios, PredictProba (str_of ''tos seca''),
      CalcularPrioridad texto_con_espacios, CalcularDerivacion 3 (str_of ''Gastroenterologia'')]"
proof -
  have strip: "py_strip texto_con_espacios = str_of ''tos seca''"
    by (simp add: texto_con_espacios_def py_strip_def py_isspace_def str_of_def)
  have len: "length texto_con_espacios = 10"
    by (simp add: texto_con_espacios_def str_of_def)
  have "length (py_strip texto_con_espacios) = 8"
    by (simp add: strip str_of_def)
  then show ?thesis
    using len analisis_sample_calls [of texto_con_espacios] by (auto simp add: strip)
qed

subsection \<open>Degraded mode\<close>

lemma load_models_Some_iff:
  "load_models svm_file le_file = Some (model, le) \<longleftrightarrow>
     svm_file = Pickled model \<and> le_file = Pickled le"
  by (auto simp add: load_models_def path_exists_def split: artifact.splits)

lemma app_sample_online:
  "calls (app voice_defaults env_heard sample_modules (Pickled sample_model) (Pickled sample_le)
            sample_ui None fresh_world) =
     [LimpiarTextoMedico texto_valido, PredictProba (py_strip texto_valido),
      CalcularPrioridad texto_valido, CalcularDerivacion 3 (str_of ''Gastroenterologia'')]"
proof -
  have "10 \<le> length texto_valido"
    by (simp add: texto_valido_def str_of_def)
  from analisis_sample_calls [OF this] show ?thesis
    by (auto simp add: app_def load_models_def path_exists_def dictado_def sample_ui_def
        split: prod.splits)
qed

text \<open>
  C2 (as amended). When either artifact is missing, every run of the script ends at the
  degraded-mode warning: no classification is performed, and neither is urgency scoring,
  referral routing or transcription; the session and the disk are left as they were. A run
  that ends degraded has called no component at all.
\<close>

theorem app_degraded:
  "(svm_file = Missing \<or> le_file = Missing \<longrightarrow>
      app cfg env m svm_file le_file u session w =
        \<lparr>shown = Degraded, calls = [], texto_completo = session, disk = w\<rparr>) \<and>
   (shown (app cfg env m svm_file le_file u session w) = Degraded \<longrightarrow>
      \<not> list_ex is_classifying (calls (app cfg env m svm_file le_file u session w)) \<and>
      \<not> list_ex is_scoring (calls (app cfg env m svm_file le_file u session w)) \<and>
      \<not> list_ex is_routing (calls (app cfg env m svm_file le_file u session w)) \<and>
      disk (app cfg env m svm_file le_file u session w) = w)"
proof (intro conjI impI)
  assume "svm_file = Missing \<or> le_file = Missing"
  then have "load_models svm_file le_file = None"
    by (auto simp add: load_models_def path_exists_def)
  then show "app cfg env m svm_file le_file u session w =
        \<lparr>shown = Degraded, calls = [], texto_completo = session, disk = w\<rparr>"
    by (simp add: app_def)
next
  assume d: "shown (app cfg env m svm_file le_file u session w) = Degraded"
  have "app cfg env m svm_file le_file u session w =
        \<lparr>shown = Degraded, calls = [], texto_completo = session, disk = w\<rparr>"
  proof (cases "load_models svm_file le_file")
    case None
    then show ?thesis by (simp add: app_def)
  next
    case (Some ml)
    then have False
      using d
      by (auto simp add: app_def analizar_handler_def analisis_def Let_def
          split: sum.splits prod.splits if_splits)
    then show ?thesis ..
  qed
  then show "\<not> list_ex is_classifying (calls (app cfg env m svm_file le_file u session w))"
    and "\<not> list_ex is_scoring (calls (app cfg env m svm_file le_file u session w))"
    and "\<not> list_ex is_routing (calls (app cfg env m svm_file le_file u session w))"
    and "disk (app cfg env m svm_file le_file u session w) = w"
    by simp_all
qed

theorem app_degraded_witness:
  "app voice_defaults env_heard sample_modules Missing (Pickled sample_le) sample_ui None
       fresh_world =
     \<lparr>shown = Degraded, calls = [], texto_completo = None, disk = fresh_world\<rparr> \<and>
   app voice_defaults env_heard sample_modules (Pickled sample_model) Missing sample_ui None
       fresh_world =
     \<lparr>shown = Degraded, calls = [], texto_completo = None, disk = fresh_world\<rparr>"
  using app_degraded [of Missing "Pickled sample_le" voice_defaults env_heard sample_modules
      sample_ui None fresh_world]
    app_degraded [of "Pickled sample_model" Missing voice_defaults env_heard sample_modules
      sample_ui None fresh_world]
  by simp

theorem app_degraded_counterexample:
  "10 \<le> length texto_valido \<and>
   \<not> scoring_and_routing_served
       (app voice_defaults env_heard sample_modules Missing (Pickled sample_le) sample_ui None
          fresh_world) \<and>
   scoring_and_routing_served
       (app voice_defaults env_heard sample_modules (Pickled sample_model) (Pickled sample_le)
          sample_ui None fresh_world)"
proof -
  have "10 \<le> length texto_valido"
    by (simp add: texto_valido_def str_of_def)
  moreover have "\<not> scoring_and_routing_served
       (app voice_defaults env_heard sample_modules Missing (Pickled sample_le) sample_ui None
          fresh_world)"
    by (simp add: scoring_and_routing_served_def app_def load_models_def path_exists_def)
  moreover have "scoring_and_routing_served
       (app voice_defaults env_heard sample_modules (Pickled sample_model) (Pickled sample_le)
          sample_ui None fresh_world)"
    by (simp add: scoring_and_routing_served_def app_sample_online)
  ultimately show ?thesis by blast
qed

end
